theory Spec2Isabelle
  imports Main
begin

section \<open>Strings and the Unicode tables\<close>

text \<open>
  A Go string is modelled by the sequence of runes (code points) that \<^verbatim>\<open>range s\<close>
  yields. On valid UTF-8 the byte-level operations of package \<^verbatim>\<open>strings\<close> used by the
  program (concatenation, \<^verbatim>\<open>HasPrefix\<close>, \<^verbatim>\<open>Contains\<close>) agree with the
  same operations on rune sequences. The tables of package \<^verbatim>\<open>unicode\<close> are not part
  of the repository; they are a parameter of every function that consults them.
\<close>

type_synonym rune = nat
type_synonym gostring = "rune list"

definition str :: "string \<Rightarrow> gostring" where
  "str s = map of_char s"

record unicode =
  IsLetter :: "rune \<Rightarrow> bool"
  IsNumber :: "rune \<Rightarrow> bool"
  ToUpper :: "rune \<Rightarrow> rune"
  FoldEq :: "rune \<Rightarrow> rune \<Rightarrow> bool"

text \<open>
  The tables restricted to the ASCII range (letters \<^verbatim>\<open>A-Z a-z\<close>, digits
  \<^verbatim>\<open>0-9\<close>), where they agree with Go's; used to evaluate the model on concrete
  ASCII inputs.
\<close>

definition ascii_upper :: "rune \<Rightarrow> rune" where
  "ascii_upper r = (if 97 \<le> r \<and> r \<le> 122 then r - 32 else r)"

definition ascii :: unicode where
  "ascii = \<lparr> IsLetter = (\<lambda>r. (65 \<le> r \<and> r \<le> 90) \<or> (97 \<le> r \<and> r \<le> 122)),
             IsNumber = (\<lambda>r. 48 \<le> r \<and> r \<le> 57),
             ToUpper = ascii_upper,
             FoldEq = (\<lambda>a b. ascii_upper a = ascii_upper b) \<rparr>"

text \<open>\<^verbatim>\<open>strings.HasPrefix(s, prefix)\<close>.\<close>

fun strings_HasPrefix :: "gostring \<Rightarrow> gostring \<Rightarrow> bool" where
  "strings_HasPrefix s [] = True"
| "strings_HasPrefix [] (p # ps) = False"
| "strings_HasPrefix (c # s) (p # ps) = (c = p \<and> strings_HasPrefix s ps)"

text \<open>\<^verbatim>\<open>strings.Contains(s, substr)\<close>: \<^verbatim>\<open>substr\<close> occurs at some position of \<^verbatim>\<open>s\<close>.\<close>

fun strings_Contains :: "gostring \<Rightarrow> gostring \<Rightarrow> bool" where
  "strings_Contains [] substr = strings_HasPrefix [] substr"
| "strings_Contains (c # s) substr =
     (strings_HasPrefix (c # s) substr \<or> strings_Contains s substr)"

text \<open>\<^verbatim>\<open>strings.ToUpper(s)\<close> maps \<^verbatim>\<open>unicode.ToUpper\<close> over the runes.\<close>

definition strings_ToUpper :: "unicode \<Rightarrow> gostring \<Rightarrow> gostring" where
  "strings_ToUpper U s = map (ToUpper U) s"

text \<open>
  \<^verbatim>\<open>strings.EqualFold(s, t)\<close> compares rune by rune: two runes agree when they are
  equal or lie in one simple-folding orbit (\<open>FoldEq\<close>); strings of different rune
  counts are never equal.
\<close>

definition strings_EqualFold :: "unicode \<Rightarrow> gostring \<Rightarrow> gostring \<Rightarrow> bool" where
  "strings_EqualFold U s t = list_all2 (\<lambda>a b. a = b \<or> FoldEq U a b) s t"

subsection \<open>isAlphanumeric\<close>

text \<open>
  \<^verbatim>\<open>
  func isAlphanumeric(s string) bool {
      for _, r := range s {
          if !unicode.IsLetter(r) && !unicode.IsNumber(r) { return false }
      }
      return true
  }
  \<close>
\<close>

fun isAlphanumeric :: "unicode \<Rightarrow> gostring \<Rightarrow> bool" where
  "isAlphanumeric U [] = True"
| "isAlphanumeric U (r # s) =
     (if \<not> IsLetter U r \<and> \<not> IsNumber U r then False else isAlphanumeric U s)"

subsection \<open>Paths\<close>

text \<open>
  \<^verbatim>\<open>filepath.Join\<close> and \<^verbatim>\<open>filepath.Clean\<close> of the Go standard library, for the
  separator \<^verbatim>\<open>/\<close> (\<^verbatim>\<open>os.PathSeparator\<close> on Unix), following the rules of their
  documentation: multiple separators collapse, every \<^verbatim>\<open>.\<close> element is dropped, an
  inner \<^verbatim>\<open>..\<close> removes the element before it, \<^verbatim>\<open>..\<close> at the start of a rooted path
  is dropped, and the empty result is \<^verbatim>\<open>.\<close>.
\<close>

fun split_slash :: "gostring \<Rightarrow> gostring list" where
  "split_slash [] = [[]]"
| "split_slash (c # s) =
     (if c = 47 then [] # split_slash s
      else (case split_slash s of [] \<Rightarrow> [[c]] | e # es \<Rightarrow> (c # e) # es))"

fun join_slash :: "gostring list \<Rightarrow> gostring" where
  "join_slash [] = []"
| "join_slash [e] = e"
| "join_slash (e # es) = e @ 47 # join_slash es"

fun clean_elems :: "bool \<Rightarrow> gostring list \<Rightarrow> gostring list \<Rightarrow> gostring list" where
  "clean_elems rooted out [] = rev out"
| "clean_elems rooted out (e # es) =
     (if e = [] \<or> e = [46] then clean_elems rooted out es
      else if e = [46, 46] then
        (case out of
           [] \<Rightarrow> if rooted then clean_elems rooted out es
                 else clean_elems rooted (e # out) es
         | t # ts \<Rightarrow> if t = [46, 46] then clean_elems rooted (e # out) es
                     else clean_elems rooted ts es)
      else clean_elems rooted (e # out) es)"

definition filepath_Clean :: "gostring \<Rightarrow> gostring" where
  "filepath_Clean p =
     (if p = [] then [46]
      else let rooted = strings_HasPrefix p [47];
               out = (if rooted then [47] else []) @
                     join_slash (clean_elems rooted [] (split_slash p))
           in if out = [] then [46] else out)"

definition filepath_Join :: "gostring list \<Rightarrow> gostring" where
  "filepath_Join elem =
     (case dropWhile (\<lambda>e. e = []) elem of
        [] \<Rightarrow> []
      | es \<Rightarrow> filepath_Clean (join_slash es))"

section \<open>Configuration and startup\<close>

text \<open>The flags of \<^verbatim>\<open>main\<close>, as \<^verbatim>\<open>config.Parse\<close> resolves them.\<close>

record config =
  find :: gostring
  cores :: int
  "output" :: gostring
  stop :: int
  quiet :: bool
  every :: int

text \<open>\<^verbatim>\<open>var defaultOutputPath = filepath.Join(".", "default.json")\<close>\<close>

definition defaultOutputPath :: gostring where
  "defaultOutputPath = filepath_Join [str ''.'', str ''default.json'']"

text \<open>
  The defaults given to \<^verbatim>\<open>config.NewString\<close>, \<^verbatim>\<open>NewInt\<close> and \<^verbatim>\<open>NewBool\<close>;
  \<open>gomaxprocs\<close> is \<^verbatim>\<open>runtime.GOMAXPROCS(0)\<close>.
\<close>

definition default_config :: "int \<Rightarrow> config" where
  "default_config gomaxprocs =
     \<lparr> find = [], cores = gomaxprocs, output = defaultOutputPath,
       stop = 60 * 60 * 24, quiet = False, every = 30 \<rparr>"

text \<open>
  Lines 115 to 123 of \<^verbatim>\<open>main\<close>:
  \<^verbatim>\<open>
  if !strings.HasPrefix(output, string(os.PathSeparator)) || !strings.HasPrefix(output, ".") {
      output = "./" + output
  }
  if strings.EqualFold(output, defaultOutputPath) {
      output = filepath.Join(".", find+".json")
  }
  \<close>
\<close>

definition resolve_output :: "unicode \<Rightarrow> gostring \<Rightarrow> gostring \<Rightarrow> gostring" where
  "resolve_output U fnd outp =
     (let out1 = (if \<not> strings_HasPrefix outp [47] \<or> \<not> strings_HasPrefix outp (str ''.'')
                  then str ''./'' @ outp else outp)
      in if strings_EqualFold U out1 defaultOutputPath
         then filepath_Join [str ''.'', fnd @ str ''.json'']
         else out1)"

text \<open>Go's \<^verbatim>\<open>int\<close> and \<^verbatim>\<open>int64\<close> are 64-bit two's complement: arithmetic wraps.\<close>

definition wrap64 :: "int \<Rightarrow> int" where
  "wrap64 x = (x + 2 ^ 63) mod 2 ^ 64 - 2 ^ 63"

text \<open>
  The loop that starts the workers, counting the \<^verbatim>\<open>go func(...)\<close> statements it
  executes:
  \<^verbatim>\<open>for i := 0; i <= *config.Int(cKeyCores); i++ { go func(...) {...}(...) }\<close>
  The loop need not end (\<open>i++\<close> wraps at the largest \<^verbatim>\<open>int\<close>), so the count is
  optional.
\<close>

partial_function (option) spawn_loop :: "int \<Rightarrow> int \<Rightarrow> nat \<Rightarrow> nat option" where
  "spawn_loop i n started =
     (if i \<le> n then spawn_loop (wrap64 (i + 1)) n (Suc started) else Some started)"

datatype status = Running | Exited int

record process =
  status :: status
  workers :: nat
  outputPath :: gostring

text \<open>
  The start of \<^verbatim>\<open>main\<close> up to the running worker pool. \<open>userOK\<close> is the outcome of
  \<^verbatim>\<open>user.Current()\<close>; \<open>parsed\<close> is the outcome of \<^verbatim>\<open>config.Parse\<close>, \<open>None\<close> for
  an error. Every \<^verbatim>\<open>log.Fatal\<close> ends the process with exit code 1.
\<close>

definition startup :: "unicode \<Rightarrow> bool \<Rightarrow> config option \<Rightarrow> process option" where
  "startup U userOK parsed =
     (let p0 = \<lparr> status = Running, workers = 0, outputPath = [] \<rparr> in
      if \<not> userOK then Some (p0\<lparr>status := Exited 1\<rparr>)
      else case parsed of
        None \<Rightarrow> Some (p0\<lparr>status := Exited 1\<rparr>)
      | Some cfg \<Rightarrow>
          if \<not> isAlphanumeric U (find cfg) then Some (p0\<lparr>status := Exited 1\<rparr>)
          else (case spawn_loop 0 (cores cfg) 0 of
                  None \<Rightarrow> None
                | Some n \<Rightarrow>
                    Some (p0\<lparr>outputPath := resolve_output U (find cfg) (output cfg),
                             workers := n\<rparr>)))"

section \<open>The worker\<close>

text \<open>
  \<^verbatim>\<open>keypair.Random()\<close> belongs to an external library. A worker is run on the
  sequence of key pairs that its successive calls return; the error result is discarded
  by the source (\<^verbatim>\<open>pair, _ = keypair.Random()\<close>).
\<close>

datatype keypair = Keypair (kp_Address: gostring) (kp_Seed: gostring)

record result =
  Address :: gostring
  Seed :: gostring

text \<open>The two \<^verbatim>\<open>log.Printf\<close> calls of the worker, with their arguments in source order.\<close>

datatype logline =
  FoundCounted gostring gostring int
| FoundQuiet gostring gostring

text \<open>
  What the workers share: the counter \<^verbatim>\<open>total\<close> (an \<^verbatim>\<open>atomic.Int64\<close>), the
  values sent on \<^verbatim>\<open>resultsCh\<close> (oldest first) and the log. \<open>returned\<close> records that
  the worker has left its loop.
\<close>

record wstate =
  total :: int
  resultsCh :: "result list"
  logged :: "logline list"
  returned :: bool

definition initial :: wstate where
  "initial = \<lparr> total = 0, resultsCh = [], logged = [], returned = False \<rparr>"

text \<open>
  The inner loop of quiet mode, on the key pairs still to come:
  \<^verbatim>\<open>
  for pair, _ = keypair.Random();
      !(strings.Contains(pair.Address(), strings.ToUpper(*config.String(cKeyFind))));
      pair, _ = keypair.Random() {
  }
  \<close>
  \<open>None\<close>: every key pair of the sequence was rejected and the loop is still running.
\<close>

fun scan_quiet :: "unicode \<Rightarrow> gostring \<Rightarrow> keypair list \<Rightarrow> (keypair \<times> keypair list) option" where
  "scan_quiet U fnd [] = None"
| "scan_quiet U fnd (pair # supply) =
     (if \<not> strings_Contains (kp_Address pair) (strings_ToUpper U fnd)
      then scan_quiet U fnd supply
      else Some (pair, supply))"

text \<open>The same loop outside quiet mode; its body is \<^verbatim>\<open>total.Add(1)\<close>.\<close>

fun scan_counting ::
  "unicode \<Rightarrow> gostring \<Rightarrow> keypair list \<Rightarrow> int \<Rightarrow> (keypair \<times> keypair list) option \<times> int" where
  "scan_counting U fnd [] t = (None, t)"
| "scan_counting U fnd (pair # supply) t =
     (if \<not> strings_Contains (kp_Address pair) (strings_ToUpper U fnd)
      then scan_counting U fnd supply (wrap64 (t + 1))
      else (Some (pair, supply), t))"

text \<open>After the loop: the log line, then \<^verbatim>\<open>resultsCh <- result{...}\<close>.\<close>

definition announce :: "config \<Rightarrow> keypair \<Rightarrow> wstate \<Rightarrow> wstate" where
  "announce cfg pair s =
     (if \<not> quiet cfg
      then s\<lparr>logged := logged s @ [FoundCounted (kp_Address pair) (kp_Seed pair) (total s)]\<rparr>
      else s\<lparr>logged := logged s @ [FoundQuiet (kp_Address pair) (kp_Seed pair)]\<rparr>)"

definition send :: "keypair \<Rightarrow> wstate \<Rightarrow> wstate" where
  "send pair s =
     s\<lparr>resultsCh := resultsCh s @ [\<lparr>Address = kp_Address pair, Seed = kp_Seed pair\<rparr>]\<rparr>"

text \<open>
  The worker's \<^verbatim>\<open>for { select { ... } }\<close>. The first argument lists, pass by pass,
  whether the \<^verbatim>\<open>select\<close> takes one of its three receiving cases (\<^verbatim>\<open>ctx.Done()\<close>,
  \<^verbatim>\<open>watchdog\<close>, \<^verbatim>\<open>timer.C\<close>: the worker returns) or \<^verbatim>\<open>default\<close>. In the
  default case \<^verbatim>\<open>var pair, _ = keypair.Random()\<close> draws a key pair that the loop's
  initialiser overwrites at once. The run is observed until the listed passes or the key
  pairs are used up.
\<close>

fun worker :: "unicode \<Rightarrow> config \<Rightarrow> bool list \<Rightarrow> keypair list \<Rightarrow> wstate \<Rightarrow> wstate" where
  "worker U cfg [] supply s = s"
| "worker U cfg (True # sel) supply s = s\<lparr>returned := True\<rparr>"
| "worker U cfg (False # sel) [] s = s"
| "worker U cfg (False # sel) (first # supply) s =
     (case (if quiet cfg then (scan_quiet U (find cfg) supply, total s)
            else scan_counting U (find cfg) supply (total s)) of
        (None, t) \<Rightarrow> s\<lparr>total := t\<rparr>
      | (Some (pair, rest), t) \<Rightarrow>
          worker U cfg sel rest (send pair (announce cfg pair (s\<lparr>total := t\<rparr>))))"

section \<open>Recording and persisting a match\<close>

text \<open>
  The bytes of the output file are kept up to what \<^verbatim>\<open>encoding/json\<close> makes of them:
  \<open>Json rs\<close> stands for bytes that \<^verbatim>\<open>json.Unmarshal\<close> decodes into the slice \<open>rs\<close>,
  \<open>Malformed\<close> for bytes on which it returns an error. \<^verbatim>\<open>json.Marshal\<close> of a slice
  of \<^verbatim>\<open>result\<close> produces bytes that decode to that slice.
\<close>

datatype content = Json "result list" | Malformed

datatype error = ErrNotExist | ErrPermission | ErrIO | ErrSyntax

definition json_Unmarshal :: "content \<Rightarrow> error + result list" where
  "json_Unmarshal c = (case c of Json rs \<Rightarrow> Inr rs | Malformed \<Rightarrow> Inl ErrSyntax)"

definition json_Marshal :: "result list \<Rightarrow> error + content" where
  "json_Marshal rs = Inr (Json rs)"

text \<open>
  What the operating system answers during one pass through the \<^verbatim>\<open>resultsCh\<close> case:
  the result of \<^verbatim>\<open>os.ReadFile\<close>, the errors of \<^verbatim>\<open>os.OpenFile\<close> and
  \<^verbatim>\<open>saveFile.Close\<close>, the result of \<^verbatim>\<open>saveFile.Write\<close> (\<open>Inr True\<close> when
  \<^verbatim>\<open>bytesWritten == len(outputBytes)\<close>) and whether \<^verbatim>\<open>p.Printf\<close> fails.
\<close>

record responses =
  readFile :: "error + content"
  openFile :: "error option"
  writeFile :: "error + bool"
  closeFile :: "error option"
  printFails :: bool

text \<open>
  The state after the pass: the global slice \<^verbatim>\<open>results\<close>, the bytes handed to a
  successful \<^verbatim>\<open>saveFile.Write\<close>, and the exit code when \<^verbatim>\<open>log.Fatal\<close> ended the
  process (\<open>None\<close>: the loop resumes).
\<close>

record after =
  results :: "result list"
  wrote :: "content option"
  exited :: "int option"

text \<open>
  The inner loop of the merge. Its \<^verbatim>\<open>continue\<close> continues this loop, so the
  comparison has no effect on what follows:
  \<^verbatim>\<open>
  for _, rr := range results {
      if strings.EqualFold(r.Address, rr.Address) { continue }
  }
  \<close>
\<close>

fun compare_all :: "unicode \<Rightarrow> result \<Rightarrow> result list \<Rightarrow> unit" where
  "compare_all U r [] = ()"
| "compare_all U r (rr # rrs) =
     (if strings_EqualFold U (Address r) (Address rr)
      then compare_all U r rrs
      else compare_all U r rrs)"

text \<open>
  \<^verbatim>\<open>
  for _, r := range inOutputAlready {
      for _, rr := range results { ... }
      results = append(results, r)
  }
  \<close>
\<close>

fun merge :: "unicode \<Rightarrow> result list \<Rightarrow> result list \<Rightarrow> result list" where
  "merge U [] rs = rs"
| "merge U (r # inOutputAlready) rs =
     (case compare_all U r rs of () \<Rightarrow> merge U inOutputAlready (rs @ [r]))"

definition fatal :: "result list \<Rightarrow> content option \<Rightarrow> after" where
  "fatal rs w = \<lparr> results = rs, wrote = w, exited = Some 1 \<rparr>"

text \<open>
  Lines 262 to 289: encode, open, write, report a short write, close. A failure of the
  report is fatal; the closing message \<^verbatim>\<open>Saved %d addresses\<close> changes nothing
  here.
\<close>

definition save :: "config \<Rightarrow> responses \<Rightarrow> result list \<Rightarrow> after" where
  "save cfg os rs =
     (case json_Marshal rs of
        Inl jsonErr \<Rightarrow> fatal rs None
      | Inr outputBytes \<Rightarrow>
          (case openFile os of
             Some openErr \<Rightarrow> fatal rs None
           | None \<Rightarrow>
               (case writeFile os of
                  Inl writeErr \<Rightarrow> fatal rs None
                | Inr complete \<Rightarrow>
                    if \<not> complete \<and> \<not> quiet cfg \<and> printFails os
                    then fatal rs (Some outputBytes)
                    else (case closeFile os of
                            Some closeErr \<Rightarrow> fatal rs (Some outputBytes)
                          | None \<Rightarrow>
                              \<lparr> results = rs, wrote = Some outputBytes, exited = None \<rparr>))))"

text \<open>
  Lines 238 to 260, then \<open>save\<close>: append the received match, read and decode the output
  file, merge.
\<close>

definition persist :: "unicode \<Rightarrow> config \<Rightarrow> responses \<Rightarrow> result list \<Rightarrow> result \<Rightarrow> after" where
  "persist U cfg os rs0 xlmAddress =
     (let rs = rs0 @ [xlmAddress] in
      case readFile os of
        Inl readErr \<Rightarrow> save cfg os rs
      | Inr existing \<Rightarrow>
          (case json_Unmarshal existing of
             Inl err \<Rightarrow> fatal rs None
           | Inr inOutputAlready \<Rightarrow>
               save cfg os (if length inOutputAlready > 0
                            then merge U inOutputAlready rs else rs)))"

text \<open>
  A file system without faults, holding \<open>file\<close> at the output path (\<open>None\<close>: no such
  file): reading a missing file fails, everything else succeeds.
\<close>

definition healthy :: "content option \<Rightarrow> responses" where
  "healthy file =
     \<lparr> readFile = (case file of None \<Rightarrow> Inl ErrNotExist | Some c \<Rightarrow> Inr c),
       openFile = None, writeFile = Inr True, closeFile = None, printFails = False \<rparr>"

text \<open>
  The coordinator receiving a sequence of matches on a healthy file system, from the
  slice \<open>rs\<close> and the file \<open>file\<close>. The bytes of a successful write become the
  content of the file: the file is opened without \<^verbatim>\<open>O_TRUNC\<close> and written from
  offset 0, which replaces the content whenever the file is new or the new encoding is
  not shorter than the old content.
\<close>

fun receive_all ::
  "unicode \<Rightarrow> config \<Rightarrow> result list \<Rightarrow> result list \<times> content option
     \<Rightarrow> result list \<times> content option" where
  "receive_all U cfg [] (rs, file) = (rs, file)"
| "receive_all U cfg (m # ms) (rs, file) =
     (let a = persist U cfg (healthy file) rs m
      in if exited a = None then receive_all U cfg ms (results a, wrote a)
         else (results a, file))"

text \<open>The number of entries of a slice whose address equals \<open>addr\<close> under case folding.\<close>

definition occurrences :: "unicode \<Rightarrow> gostring \<Rightarrow> result list \<Rightarrow> nat" where
  "occurrences U addr rs = length (filter (\<lambda>r. strings_EqualFold U (Address r) addr) rs)"

section \<open>Auxiliary facts\<close>

lemma HasPrefix_append: "strings_HasPrefix s p \<longleftrightarrow> (\<exists>v. s = p @ v)"
  by (induction s p rule: strings_HasPrefix.induct) auto

text \<open>\<open>strings_Contains\<close> is the substring relation.\<close>

lemma Contains_infix: "strings_Contains s sub \<longleftrightarrow> (\<exists>u v. s = u @ sub @ v)"
proof (induction s)
  case Nil
  show ?case by (cases sub) auto
next
  case (Cons c s)
  show ?case
  proof
    assume "strings_Contains (c # s) sub"
    then consider "strings_HasPrefix (c # s) sub" | "strings_Contains s sub" by auto
    then show "\<exists>u v. c # s = u @ sub @ v"
    proof cases
      case 1
      then obtain v where "c # s = sub @ v" using HasPrefix_append by blast
      then have "c # s = [] @ sub @ v" by simp
      then show ?thesis by blast
    next
      case 2
      then obtain u v where "s = u @ sub @ v" using Cons.IH by blast
      then have "c # s = (c # u) @ sub @ v" by simp
      then show ?thesis by blast
    qed
  next
    assume "\<exists>u v. c # s = u @ sub @ v"
    then obtain u v where uv: "c # s = u @ sub @ v" by blast
    show "strings_Contains (c # s) sub"
    proof (cases u)
      case Nil
      with uv have "strings_HasPrefix (c # s) sub" using HasPrefix_append by auto
      then show ?thesis by simp
    next
      case (Cons a u')
      with uv have "s = u' @ sub @ v" by simp
      then have "strings_Contains s sub" using Cons.IH by blast
      then show ?thesis by simp
    qed
  qed
qed

lemma Contains_empty: "strings_Contains s []"
  by (cases s) simp_all

lemma EqualFold_refl: "strings_EqualFold U s s"
  by (simp add: strings_EqualFold_def list_all2_same)

lemma isAlphanumeric_iff:
  "isAlphanumeric U s \<longleftrightarrow> (\<forall>r\<in>set s. IsLetter U r \<or> IsNumber U r)"
  by (induction s) auto

lemma defaultOutputPath_value: "defaultOutputPath = str ''default.json''"
  by (simp add: defaultOutputPath_def filepath_Join_def filepath_Clean_def str_def)

lemma wrap64_id: "- (2 ^ 63) \<le> x \<Longrightarrow> x < 2 ^ 63 \<Longrightarrow> wrap64 x = x"
  by (simp add: wrap64_def)

text \<open>The loop started at \<open>i\<close> runs its body once for each of \<open>i, ..., n\<close>.\<close>

lemma spawn_loop_count:
  "0 \<le> i \<Longrightarrow> i \<le> n + 1 \<Longrightarrow> n < 2 ^ 63 - 1 \<Longrightarrow>
   spawn_loop i n k = Some (k + nat (n + 1 - i))"
proof (induction "nat (n + 1 - i)" arbitrary: i k)
  case 0
  then have "\<not> i \<le> n" by simp
  then show ?case using 0 by (subst spawn_loop.simps) simp
next
  case (Suc d)
  then have le: "i \<le> n" by simp
  have w: "wrap64 (i + 1) = i + 1"
    using Suc.prems le by (intro wrap64_id) simp_all
  have "spawn_loop (i + 1) n (Suc k) = Some (Suc k + nat (n + 1 - (i + 1)))"
    using Suc le by (intro Suc.hyps(1)) simp_all
  then show ?case using le w by (subst spawn_loop.simps) (simp add: nat_diff_distrib')
qed

text \<open>The merge appends every entry read from the file, whatever its address.\<close>

lemma merge_appends: "merge U inOutputAlready rs = rs @ inOutputAlready"
  by (induction inOutputAlready arbitrary: rs) (simp_all split: unit.split)

lemma total_announce: "total (announce cfg pair s) = total s"
  by (simp add: announce_def)

lemma total_send: "total (send pair s) = total s"
  by (simp add: send_def)

lemma worker_quiet_pass:
  "quiet cfg \<Longrightarrow>
   worker U cfg (False # sel) (first # pairs) s =
     (case scan_quiet U (find cfg) pairs of
        None \<Rightarrow> s
      | Some (pair, rest) \<Rightarrow> worker U cfg sel rest (send pair (announce cfg pair s)))"
  by (simp split: option.split)

lemma worker_quiet_total: "quiet cfg \<Longrightarrow> total (worker U cfg sel pairs s) = total s"
proof (induction sel arbitrary: pairs s)
  case Nil
  show ?case by simp
next
  case (Cons b sel)
  show ?case
  proof (cases b)
    case True
    then show ?thesis by simp
  next
    case False
    show ?thesis
    proof (cases pairs)
      case Nil
      with False show ?thesis by simp
    next
      case (Cons first ps)
      from False have b: "b = False" by simp
      show ?thesis
        unfolding b Cons worker_quiet_pass [OF Cons.prems]
        by (simp add: Cons.IH [OF Cons.prems] total_announce total_send split: option.split)
    qed
  qed
qed

text \<open>Encoding and writing do not depend on what \<^verbatim>\<open>os.ReadFile\<close> returned.\<close>

lemma save_ignores_readFile: "save cfg (os\<lparr>readFile := x\<rparr>) rs = save cfg os rs"
  by (simp add: save_def json_Marshal_def split: option.split sum.split)

text \<open>When encoding and writing end the process.\<close>

lemma save_exits_iff:
  "exited (save cfg os rs) = Some 1 \<longleftrightarrow>
     openFile os \<noteq> None \<or> (\<exists>e. writeFile os = Inl e) \<or>
     (writeFile os = Inr False \<and> \<not> quiet cfg \<and> printFails os) \<or> closeFile os \<noteq> None"
  by (auto simp: save_def json_Marshal_def fatal_def split: option.split sum.split)

section \<open>The claims\<close>

text \<open>
  Claim C1 says that after every successful persist the output file holds each recorded
  address exactly once. The code appends every entry of the file to the slice without
  skipping any: when a run that starts without an output file receives two matches
  \<open>m1\<close> and \<open>m2\<close>, the second pass reads \<open>m1\<close> back from the file and appends it
  again, so the file then holds the address of \<open>m1\<close> at least twice.
\<close>

theorem C1_second_match_duplicates_first:
  "receive_all U cfg [m1, m2] ([], None) = ([m1, m2, m1], Some (Json [m1, m2, m1])) \<and>
   2 \<le> occurrences U (Address m1) [m1, m2, m1]"
proof -
  have "persist U cfg (healthy None) [] m1 =
          \<lparr> results = [m1], wrote = Some (Json [m1]), exited = None \<rparr>"
    by (simp add: persist_def healthy_def save_def json_Marshal_def Let_def)
  moreover have "persist U cfg (healthy (Some (Json [m1]))) [m1] m2 =
          \<lparr> results = [m1, m2, m1], wrote = Some (Json [m1, m2, m1]), exited = None \<rparr>"
    by (simp add: persist_def healthy_def save_def json_Marshal_def json_Unmarshal_def
        merge_appends Let_def)
  ultimately have "receive_all U cfg [m1, m2] ([], None) =
          ([m1, m2, m1], Some (Json [m1, m2, m1]))"
    by simp
  moreover have "2 \<le> occurrences U (Address m1) [m1, m2, m1]"
    by (simp add: occurrences_def EqualFold_refl)
  ultimately show ?thesis by simp
qed

theorem C1_witness:
  "receive_all ascii
     \<lparr> find = str ''A'', cores = 1, output = str ''a.json'', stop = 60, quiet = True, every = 30 \<rparr>
     [\<lparr>Address = str ''GABC'', Seed = str ''SABC''\<rparr>, \<lparr>Address = str ''GXAY'', Seed = str ''SXAY''\<rparr>]
     ([], None)
   = ([\<lparr>Address = str ''GABC'', Seed = str ''SABC''\<rparr>,
       \<lparr>Address = str ''GXAY'', Seed = str ''SXAY''\<rparr>,
       \<lparr>Address = str ''GABC'', Seed = str ''SABC''\<rparr>],
      Some (Json [\<lparr>Address = str ''GABC'', Seed = str ''SABC''\<rparr>,
                  \<lparr>Address = str ''GXAY'', Seed = str ''SXAY''\<rparr>,
                  \<lparr>Address = str ''GABC'', Seed = str ''SABC''\<rparr>]))"
  using C1_second_match_duplicates_first
    [of ascii
      "\<lparr> find = str ''A'', cores = 1, output = str ''a.json'', stop = 60, quiet = True, every = 30 \<rparr>"
      "\<lparr>Address = str ''GABC'', Seed = str ''SABC''\<rparr>"
      "\<lparr>Address = str ''GXAY'', Seed = str ''SXAY''\<rparr>"]
  by (rule conjunct1)

text \<open>
  Claim C4 says that exactly \<open>cores\<close> workers are started. The loop runs for
  \<open>i = 0, ..., cores\<close>: once the query is valid and \<open>0 \<le> cores\<close>, startup leaves
  \<open>cores + 1\<close> workers running.
\<close>

theorem C4_startup_starts_one_worker_more:
  "isAlphanumeric U (find cfg) \<Longrightarrow> 0 \<le> cores cfg \<Longrightarrow> cores cfg < 2 ^ 63 - 1 \<Longrightarrow>
   startup U True (Some cfg) =
     Some \<lparr> status = Running, workers = nat (cores cfg) + 1,
            outputPath = resolve_output U (find cfg) (output cfg) \<rparr>"
proof -
  assume a: "isAlphanumeric U (find cfg)" and b: "0 \<le> cores cfg" and c: "cores cfg < 2 ^ 63 - 1"
  have "spawn_loop 0 (cores cfg) 0 = Some (0 + nat (cores cfg + 1 - 0))"
    using b c by (intro spawn_loop_count) simp_all
  then have "spawn_loop 0 (cores cfg) 0 = Some (nat (cores cfg) + 1)"
    using b by (simp add: nat_add_distrib)
  then show ?thesis using a by (simp add: startup_def Let_def)
qed

theorem C4_witness:
  "startup ascii True
     (Some \<lparr> find = str ''stellar'', cores = 1, output = str ''out.json'', stop = 60,
             quiet = False, every = 30 \<rparr>) =
   Some \<lparr> status = Running, workers = 2, outputPath = str ''./out.json'' \<rparr>"
proof -
  let ?cfg = "\<lparr> find = str ''stellar'', cores = 1, output = str ''out.json'', stop = 60,
                quiet = False, every = 30 \<rparr>"
  have a: "isAlphanumeric ascii (find ?cfg)" by (simp add: ascii_def str_def)
  have b: "0 \<le> cores ?cfg" by simp
  have c: "cores ?cfg < 2 ^ 63 - 1" by simp
  have r: "resolve_output ascii (find ?cfg) (output ?cfg) = str ''./out.json''"
    by (simp add: resolve_output_def defaultOutputPath_value strings_EqualFold_def str_def)
  show ?thesis
    using C4_startup_starts_one_worker_more [OF a b c] r by simp
qed

text \<open>
  Claim C5 says that an output path left at its default is derived from the query
  (\<^verbatim>\<open>stellar.json\<close> for the query \<^verbatim>\<open>stellar\<close>). The code first prefixes the path
  with \<^verbatim>\<open>./\<close> and then compares it with \<^verbatim>\<open>defaultOutputPath\<close>, which is
  \<^verbatim>\<open>default.json\<close>; the comparison fails, and the resolved path is
  \<^verbatim>\<open>./default.json\<close> for every query.
\<close>

theorem C5_default_output_ignores_query:
  "resolve_output U q (output (default_config n)) = str ''./default.json''"
  by (simp add: resolve_output_def default_config_def defaultOutputPath_value
      strings_EqualFold_def str_def)

theorem C5_witness:
  "resolve_output ascii (str ''stellar'') (output (default_config 16)) = str ''./default.json''"
  by (rule C5_default_output_ignores_query)

text \<open>
  Claim C6: a query with a rune that is neither a letter nor a number ends startup with
  exit code 1 and no worker started; a query of letters and numbers only passes
  \<open>isAlphanumeric\<close>, and startup then does not exit.
\<close>

theorem C6_query_validation:
  "((\<exists>r\<in>set (find cfg). \<not> IsLetter U r \<and> \<not> IsNumber U r) \<longrightarrow>
      startup U userOK (Some cfg) =
        Some \<lparr> status = Exited 1, workers = 0, outputPath = [] \<rparr>) \<and>
   ((\<forall>r\<in>set (find cfg). IsLetter U r \<or> IsNumber U r) \<longrightarrow>
      isAlphanumeric U (find cfg) \<and>
      (\<forall>p. startup U True (Some cfg) = Some p \<longrightarrow> status p = Running))"
proof (intro conjI impI allI)
  assume "\<exists>r\<in>set (find cfg). \<not> IsLetter U r \<and> \<not> IsNumber U r"
  then have "\<not> isAlphanumeric U (find cfg)" by (auto simp: isAlphanumeric_iff)
  then show "startup U userOK (Some cfg) =
        Some \<lparr> status = Exited 1, workers = 0, outputPath = [] \<rparr>"
    by (simp add: startup_def Let_def)
next
  assume "\<forall>r\<in>set (find cfg). IsLetter U r \<or> IsNumber U r"
  then show "isAlphanumeric U (find cfg)" by (simp add: isAlphanumeric_iff)
next
  fix p
  assume "\<forall>r\<in>set (find cfg). IsLetter U r \<or> IsNumber U r"
    and p: "startup U True (Some cfg) = Some p"
  then have "isAlphanumeric U (find cfg)" by (simp add: isAlphanumeric_iff)
  with p show "status p = Running"
    by (auto simp: startup_def Let_def split: option.splits)
qed

theorem C6_witness:
  "startup ascii True
     (Some \<lparr> find = str ''a-b'', cores = 1, output = str ''out.json'', stop = 60,
             quiet = False, every = 30 \<rparr>) =
     Some \<lparr> status = Exited 1, workers = 0, outputPath = [] \<rparr> \<and>
   isAlphanumeric ascii (str ''stellar2'')"
proof -
  let ?bad = "\<lparr> find = str ''a-b'', cores = 1, output = str ''out.json'', stop = 60,
                quiet = False, every = 30 \<rparr>"
  let ?good = "\<lparr> find = str ''stellar2'', cores = 1, output = str ''out.json'', stop = 60,
                quiet = False, every = 30 \<rparr>"
  have bad: "\<exists>r\<in>set (find ?bad). \<not> IsLetter ascii r \<and> \<not> IsNumber ascii r"
    by (simp add: ascii_def str_def)
  have good: "\<forall>r\<in>set (find ?good). IsLetter ascii r \<or> IsNumber ascii r"
    by (simp add: ascii_def str_def)
  from C6_query_validation [of ?bad ascii True] bad
  have 1: "startup ascii True (Some ?bad) =
      Some \<lparr> status = Exited 1, workers = 0, outputPath = [] \<rparr>"
    by blast
  from C6_query_validation [of ?good ascii True] good
  have "isAlphanumeric ascii (find ?good)" by blast
  then have 2: "isAlphanumeric ascii (str ''stellar2'')" by simp
  from 1 2 show ?thesis by (rule conjI)
qed

text \<open>
  Claim C7: in quiet mode a worker never changes the counter. Whatever the shared state
  a worker starts from, however many passes it makes and whatever key pairs it draws, the
  counter afterwards is the counter before; from the initial state it is 0.
\<close>

theorem C7_quiet_worker_leaves_counter:
  "quiet cfg \<Longrightarrow>
   total (worker U cfg sel pairs s) = total s \<and> total (worker U cfg sel pairs initial) = 0"
proof -
  assume q: "quiet cfg"
  have "total (worker U cfg sel pairs initial) = total initial"
    using q by (rule worker_quiet_total)
  then have "total (worker U cfg sel pairs initial) = 0" by (simp add: initial_def)
  with worker_quiet_total [OF q] show ?thesis by simp
qed

theorem C7_witness:
  "total (worker ascii
     \<lparr> find = str ''abc'', cores = 1, output = str ''out.json'', stop = 60, quiet = True,
       every = 30 \<rparr>
     [False, False]
     [Keypair (str ''GQQQ'') (str ''SQQQ''), Keypair (str ''GXYZ'') (str ''SXYZ''),
      Keypair (str ''GABC'') (str ''SABC''), Keypair (str ''GDEF'') (str ''SDEF''),
      Keypair (str ''GHIJ'') (str ''SHIJ'')]
     initial) = 0"
proof -
  let ?cfg = "\<lparr> find = str ''abc'', cores = 1, output = str ''out.json'', stop = 60,
                quiet = True, every = 30 \<rparr>"
  have q: "quiet ?cfg" by simp
  from C7_quiet_worker_leaves_counter [OF q] show ?thesis by (rule conjunct2)
qed

text \<open>
  Claim C8, as amended: the worker upper-cases the query, not the address. A key pair
  under test is a match exactly when its address contains the upper-cased query as a
  substring. On a match the worker logs it, sends the result with that address and seed
  on the channel and goes on with its next pass; otherwise it stays in the inner loop
  and tests the next key pair, having added one to the counter unless in quiet mode. The
  key pair \<open>first\<close>, drawn at the top of the pass, is overwritten without being tested.
\<close>

theorem C8_match_on_uppercased_query:
  "worker U cfg (False # sel) (first # pair # rest) s =
     (if \<exists>u v. kp_Address pair = u @ map (ToUpper U) (find cfg) @ v
      then worker U cfg sel rest
             (announce cfg pair s
                \<lparr>resultsCh := resultsCh s @ [\<lparr>Address = kp_Address pair, Seed = kp_Seed pair\<rparr>]\<rparr>)
      else worker U cfg (False # sel) (first # rest)
             (if quiet cfg then s else s\<lparr>total := wrap64 (total s + 1)\<rparr>))"
proof -
  have c: "(\<exists>u v. kp_Address pair = u @ map (ToUpper U) (find cfg) @ v)
        \<longleftrightarrow> strings_Contains (kp_Address pair) (strings_ToUpper U (find cfg))"
    by (simp add: Contains_infix strings_ToUpper_def)
  have r: "resultsCh (announce cfg pair s) = resultsCh s"
    by (simp add: announce_def)
  show ?thesis unfolding c
    by (simp add: send_def r split: prod.split option.split)
qed

theorem C8_witness:
  "resultsCh (worker ascii
     \<lparr> find = str ''payme'', cores = 1, output = str ''out.json'', stop = 60, quiet = True,
       every = 30 \<rparr>
     [False]
     [Keypair (str ''GQQQ'') (str ''SQQQ''),
      Keypair (str ''GC4EOY4SUU7QQZCMXVQY7I66KPEP4XFUZP5JXBZLISRB72SHU55PAYME'') (str ''SEED'')]
     initial) =
   [\<lparr>Address = str ''GC4EOY4SUU7QQZCMXVQY7I66KPEP4XFUZP5JXBZLISRB72SHU55PAYME'',
     Seed = str ''SEED''\<rparr>]"
proof -
  let ?cfg = "\<lparr> find = str ''payme'', cores = 1, output = str ''out.json'', stop = 60,
                quiet = True, every = 30 \<rparr>"
  let ?pair = "Keypair (str ''GC4EOY4SUU7QQZCMXVQY7I66KPEP4XFUZP5JXBZLISRB72SHU55PAYME'')
                 (str ''SEED'')"
  have "kp_Address ?pair =
          str ''GC4EOY4SUU7QQZCMXVQY7I66KPEP4XFUZP5JXBZLISRB72SHU55'' @
          map (ToUpper ascii) (find ?cfg) @ []"
    by (simp add: ascii_def ascii_upper_def str_def)
  then have "\<exists>u v. kp_Address ?pair = u @ map (ToUpper ascii) (find ?cfg) @ v"
    by blast
  with C8_match_on_uppercased_query
         [of ascii ?cfg "[]" "Keypair (str ''GQQQ'') (str ''SQQQ'')" ?pair "[]" initial]
  have "worker ascii ?cfg [False] [Keypair (str ''GQQQ'') (str ''SQQQ''), ?pair] initial =
        worker ascii ?cfg [] []
          (announce ?cfg ?pair initial
             \<lparr>resultsCh := resultsCh initial @
                [\<lparr>Address = kp_Address ?pair, Seed = kp_Seed ?pair\<rparr>]\<rparr>)"
    by presburger
  then show ?thesis by (simp add: initial_def)
qed

text \<open>
  Claim C8 as stated fails: for the query \<^verbatim>\<open>payme\<close> the worker sends the address
  ending in \<^verbatim>\<open>PAYME\<close>, although the address, upper-cased, does not contain the
  query \<^verbatim>\<open>payme\<close>.
\<close>

theorem C8_counterexample:
  "resultsCh (worker ascii
     \<lparr> find = str ''payme'', cores = 1, output = str ''out.json'', stop = 60, quiet = True,
       every = 30 \<rparr>
     [False]
     [Keypair (str ''GQQQ'') (str ''SQQQ''),
      Keypair (str ''GC4EOY4SUU7QQZCMXVQY7I66KPEP4XFUZP5JXBZLISRB72SHU55PAYME'') (str ''SEED'')]
     initial) =
   [\<lparr>Address = str ''GC4EOY4SUU7QQZCMXVQY7I66KPEP4XFUZP5JXBZLISRB72SHU55PAYME'',
     Seed = str ''SEED''\<rparr>] \<and>
   \<not> strings_Contains
       (strings_ToUpper ascii (str ''GC4EOY4SUU7QQZCMXVQY7I66KPEP4XFUZP5JXBZLISRB72SHU55PAYME''))
       (str ''payme'')"
  by (simp add: ascii_def ascii_upper_def str_def strings_ToUpper_def initial_def
      announce_def send_def)

text \<open>
  Claim C9, as amended: the code does not tell a missing file from an unreadable one.
  Every error of \<^verbatim>\<open>os.ReadFile\<close>, whichever it is, has the effect of an empty
  snapshot: the pass goes on to encode and write the slice in memory. A file that is read
  and whose content does not decode is fatal: the process exits with code 1, the
  received match is in the slice and nothing has been written.
\<close>

theorem C9_read_error_is_empty_snapshot_malformed_is_fatal:
  "persist U cfg (os\<lparr>readFile := Inl e\<rparr>) rs m =
     persist U cfg (os\<lparr>readFile := Inr (Json [])\<rparr>) rs m \<and>
   persist U cfg (os\<lparr>readFile := Inl e\<rparr>) rs m = save cfg os (rs @ [m]) \<and>
   persist U cfg (os\<lparr>readFile := Inr Malformed\<rparr>) rs m =
     \<lparr> results = rs @ [m], wrote = None, exited = Some 1 \<rparr>"
  by (simp add: persist_def save_ignores_readFile json_Unmarshal_def fatal_def Let_def)

theorem C9_witness:
  "persist ascii
     \<lparr> find = str ''A'', cores = 1, output = str ''a.json'', stop = 60, quiet = True, every = 30 \<rparr>
     (healthy None) [] \<lparr>Address = str ''GABC'', Seed = str ''SABC''\<rparr> =
     \<lparr> results = [\<lparr>Address = str ''GABC'', Seed = str ''SABC''\<rparr>],
       wrote = Some (Json [\<lparr>Address = str ''GABC'', Seed = str ''SABC''\<rparr>]),
       exited = None \<rparr> \<and>
   persist ascii
     \<lparr> find = str ''A'', cores = 1, output = str ''a.json'', stop = 60, quiet = True, every = 30 \<rparr>
     (healthy (Some Malformed)) [] \<lparr>Address = str ''GABC'', Seed = str ''SABC''\<rparr> =
     \<lparr> results = [\<lparr>Address = str ''GABC'', Seed = str ''SABC''\<rparr>], wrote = None,
       exited = Some 1 \<rparr>"
proof -
  let ?cfg = "\<lparr> find = str ''A'', cores = 1, output = str ''a.json'', stop = 60,
                quiet = True, every = 30 \<rparr>"
  let ?m = "\<lparr>Address = str ''GABC'', Seed = str ''SABC''\<rparr>"
  have n: "healthy None = (healthy None)\<lparr>readFile := Inl ErrNotExist\<rparr>"
    by (simp add: healthy_def)
  have b: "healthy (Some Malformed) = (healthy None)\<lparr>readFile := Inr Malformed\<rparr>"
    by (simp add: healthy_def)
  have s: "save ?cfg (healthy None) ([] @ [?m]) =
            \<lparr> results = [?m], wrote = Some (Json [?m]), exited = None \<rparr>"
    by (simp add: save_def healthy_def json_Marshal_def)
  from C9_read_error_is_empty_snapshot_malformed_is_fatal
         [where U = ascii and cfg = ?cfg and os = "healthy None" and e = ErrNotExist
            and rs = "[]" and m = ?m]
  have "persist ascii ?cfg ((healthy None)\<lparr>readFile := Inl ErrNotExist\<rparr>) [] ?m =
          save ?cfg (healthy None) ([] @ [?m])"
    and "persist ascii ?cfg ((healthy None)\<lparr>readFile := Inr Malformed\<rparr>) [] ?m =
          \<lparr> results = [] @ [?m], wrote = None, exited = Some 1 \<rparr>"
    by blast+
  then show ?thesis unfolding n [symmetric] b [symmetric] s by simp
qed

text \<open>
  Claim C9 as stated fails: with an output file that exists and holds an entry but
  cannot be read (\<^verbatim>\<open>os.ReadFile\<close> returns an input/output error), the pass does
  not exit; it writes the slice in memory, here the single received match, as if the
  file had been empty.
\<close>

theorem C9_counterexample:
  "persist ascii
     \<lparr> find = str ''A'', cores = 1, output = str ''a.json'', stop = 60, quiet = True, every = 30 \<rparr>
     \<lparr> readFile = Inl ErrIO, openFile = None, writeFile = Inr True, closeFile = None,
       printFails = False \<rparr>
     [] \<lparr>Address = str ''GABC'', Seed = str ''SABC''\<rparr> =
   \<lparr> results = [\<lparr>Address = str ''GABC'', Seed = str ''SABC''\<rparr>],
     wrote = Some (Json [\<lparr>Address = str ''GABC'', Seed = str ''SABC''\<rparr>]),
     exited = None \<rparr>"
  by (simp add: persist_def save_def json_Marshal_def Let_def)

text \<open>
  Claim C10: the empty query, which is the default of \<^verbatim>\<open>-find\<close>, passes
  \<open>isAlphanumeric\<close>; every address contains it; and in every pass of the worker the
  key pair under test (the second drawn, \<open>first\<close> being overwritten untested) is
  announced and sent as a match.
\<close>

theorem C10_empty_query_matches_every_candidate:
  "find cfg = [] \<Longrightarrow>
   isAlphanumeric U (find cfg) \<and>
   strings_Contains addr (strings_ToUpper U (find cfg)) \<and>
   worker U cfg (False # sel) (first # pair # rest) s =
     worker U cfg sel rest (send pair (announce cfg pair s))"
  by (simp add: strings_ToUpper_def Contains_empty)

theorem C10_witness:
  "isAlphanumeric ascii (find (default_config 16)) \<and>
   strings_Contains (str ''GABC'') (strings_ToUpper ascii (find (default_config 16))) \<and>
   resultsCh (worker ascii (default_config 16) [False, False]
       [Keypair (str ''GQQQ'') (str ''SQQQ''), Keypair (str ''GABC'') (str ''SABC''),
        Keypair (str ''GDEF'') (str ''SDEF''), Keypair (str ''GXYZ'') (str ''SXYZ'')]
       initial) =
     [\<lparr>Address = str ''GABC'', Seed = str ''SABC''\<rparr>, \<lparr>Address = str ''GXYZ'', Seed = str ''SXYZ''\<rparr>]"
proof -
  let ?cfg = "default_config 16"
  have e: "find ?cfg = []" by (simp add: default_config_def)
  note step = C10_empty_query_matches_every_candidate [OF e, of ascii]
  have 1: "isAlphanumeric ascii (find ?cfg)" using step by blast
  have 2: "strings_Contains (str ''GABC'') (strings_ToUpper ascii (find ?cfg))"
    using step by blast
  have "worker ascii ?cfg [False, False]
       [Keypair (str ''GQQQ'') (str ''SQQQ''), Keypair (str ''GABC'') (str ''SABC''),
        Keypair (str ''GDEF'') (str ''SDEF''), Keypair (str ''GXYZ'') (str ''SXYZ'')]
       initial =
     send (Keypair (str ''GXYZ'') (str ''SXYZ''))
       (announce ?cfg (Keypair (str ''GXYZ'') (str ''SXYZ''))
         (send (Keypair (str ''GABC'') (str ''SABC''))
           (announce ?cfg (Keypair (str ''GABC'') (str ''SABC'')) initial)))"
    using step by simp
  then have 3: "resultsCh (worker ascii ?cfg [False, False]
       [Keypair (str ''GQQQ'') (str ''SQQQ''), Keypair (str ''GABC'') (str ''SABC''),
        Keypair (str ''GDEF'') (str ''SDEF''), Keypair (str ''GXYZ'') (str ''SXYZ'')]
       initial) =
     [\<lparr>Address = str ''GABC'', Seed = str ''SABC''\<rparr>, \<lparr>Address = str ''GXYZ'', Seed = str ''SXYZ''\<rparr>]"
    by (simp add: send_def announce_def initial_def)
  from 1 2 3 show ?thesis by blast
qed

end
